theory Spec2Isabelle
  imports Main "HOL-Library.Signed_Division" "HOL-Library.AList"
begin

section \<open>The time library, as far as cache.go uses it\<close>

text \<open>
  A \<open>time.Time\<close> is modelled by the instant it denotes: the number of nanoseconds since
  the zero time, January 1 of year 1, 00:00:00 UTC (\<open>time.Time{}\<close> is 0). The location
  and the monotonic clock reading are left out: \<open>Truncate\<close> strips the monotonic reading,
  the entries read back from the store never carry one, and \<open>Before\<close>, \<open>Sub\<close> and
  \<open>UnixNano\<close> then compare wall-clock instants only. A \<open>time.Duration\<close> is an \<open>int64\<close>
  count of nanoseconds, modelled as an \<open>int\<close>; where the library wraps or saturates
  at 64 bits the model writes it out (\<open>UnixNano\<close>, \<open>Sub\<close>). Instants themselves are
  not bounded: Go keeps the seconds since year 1 in an \<open>int64\<close>, which holds every
  instant within 292 billion years of it.
\<close>

type_synonym Time = int
type_synonym Duration = int

definition Second :: Duration where
  "Second = 1000000000"

definition minDuration :: Duration where
  "minDuration = - (2 ^ 63)"

definition maxDuration :: Duration where
  "maxDuration = 2 ^ 63 - 1"

definition wrap64 :: "int \<Rightarrow> int" where
  \<comment> \<open>the value of an \<open>int64\<close> computation whose exact result is \<open>x\<close>\<close>
  "wrap64 x = (x + 2 ^ 63) mod 2 ^ 64 - 2 ^ 63"

definition unixToInternal :: int where
  \<comment> \<open>seconds from the zero time to January 1, 1970 UTC\<close>
  "unixToInternal = (1969 * 365 + 1969 div 4 - 1969 div 100 + 1969 div 400) * 86400"

definition Unix_epoch :: Time where
  \<comment> \<open>the instant 1970-01-01 00:00:00 UTC\<close>
  "Unix_epoch = unixToInternal * Second"

definition Time_zero :: Time where
  \<comment> \<open>\<open>time.Time{}\<close>\<close>
  "Time_zero = 0"

definition Time_UnixNano :: "Time \<Rightarrow> int" where
  \<comment> \<open>\<open>(t.sec() + internalToUnix) * 1e9 + t.nsec()\<close>, computed in \<open>int64\<close>\<close>
  "Time_UnixNano t = wrap64 ((t div Second - unixToInternal) * Second + t mod Second)"

definition Time_Before :: "Time \<Rightarrow> Time \<Rightarrow> bool" where
  "Time_Before t u = (t < u)"

definition Time_Truncate :: "Time \<Rightarrow> Duration \<Rightarrow> Time" where
  \<comment> \<open>rounds \<open>t\<close> down to a multiple of \<open>d\<close> since the zero time; \<open>t\<close> itself when \<open>d <= 0\<close>\<close>
  "Time_Truncate t d = (if d \<le> 0 then t else t - t mod d)"

definition Time_Add :: "Time \<Rightarrow> Duration \<Rightarrow> Time" where
  "Time_Add t d = t + d"

definition Time_Sub :: "Time \<Rightarrow> Time \<Rightarrow> Duration" where
  \<comment> \<open>\<open>t - u\<close>, saturated at the least and the greatest \<open>Duration\<close>\<close>
  "Time_Sub t u =
     (let d = t - u
      in if d < minDuration then minDuration
         else if maxDuration < d then maxDuration
         else d)"

definition Nanoseconds :: "Duration \<Rightarrow> int" where
  "Nanoseconds d = d"

section \<open>strconv.FormatInt, base 10\<close>

definition digit_char :: "nat \<Rightarrow> char" where
  "digit_char n = char_of (48 + n)"

fun digits10 :: "nat \<Rightarrow> string" where
  "digits10 n = (if n < 10 then [digit_char n] else digits10 (n div 10) @ [digit_char (n mod 10)])"

declare digits10.simps [simp del]

definition FormatInt10 :: "int \<Rightarrow> string" where
  "FormatInt10 i = (if i < 0 then CHR ''-'' # digits10 (nat (- i)) else digits10 (nat i))"

section \<open>The expiry functions of cache.go\<close>

definition roundTimeUp :: "Time \<Rightarrow> Duration \<Rightarrow> Time" where
  "roundTimeUp t defaultTime =
     (let ti = Time_Truncate t defaultTime;
          ti = Time_Add ti defaultTime
      in ti)"

definition getTimeDiff :: "Time \<Rightarrow> Duration \<Rightarrow> Duration" where
  "getTimeDiff t defaultTime =
     (let futureTime = roundTimeUp t defaultTime
      in Time_Sub futureTime t)"

definition getExpiresAtTime :: "Time \<Rightarrow> Duration \<Rightarrow> Time" where
  "getExpiresAtTime t defaultTime = roundTimeUp t defaultTime"

definition getCacheControl :: "int \<Rightarrow> string" where
  "getCacheControl maxAge =
     (if maxAge = 0 then ''max-age=0, no-cache, no-store, must-revalidate''
      else ''max-age='' @ FormatInt10 maxAge @ '', public'')"

section \<open>Data model\<close>

type_synonym bytes = "char list"

datatype error = ErrNotFound | ErrAlreadyExists | ErrOther string

text \<open>
  \<open>http.Header\<close> is a \<open>map[string][]string\<close>; it is kept as an association list, read
  with \<open>map_of\<close> and written with \<open>AList.update\<close>, so that ranging over it is a fold.
\<close>

type_synonym http_Header = "(string \<times> string list) list"

record Cached =
  Status :: int
  Body :: bytes
  Header :: http_Header
  ExpireAt :: Time

text \<open>
  The \<open>Store\<close> interface: any implementation, over any state \<open>'s\<close> of its own. \<open>Get\<close>
  returns the data (\<open>Inr\<close>) or a non-nil error (\<open>Inl\<close>); the other operations return
  their error, \<open>None\<close> for nil.
\<close>

record 's Store =
  Store_Get :: "string \<Rightarrow> 's \<Rightarrow> (error + bytes) \<times> 's"
  Store_Set :: "string \<Rightarrow> bytes \<Rightarrow> 's \<Rightarrow> error option \<times> 's"
  Store_Remove :: "string \<Rightarrow> 's \<Rightarrow> error option \<times> 's"
  Store_Update :: "string \<Rightarrow> bytes \<Rightarrow> 's \<Rightarrow> error option \<times> 's"
  Store_Keys :: "'s \<Rightarrow> string list"

record 's Options =
  Store :: "'s Store"
  Expire :: Duration
  Headers :: "string list option"
  DoNotUseAbort :: bool

definition Options_init :: "'s Options \<Rightarrow> 's Options" where
  "Options_init o' =
     (if Headers o' = None
      then o'\<lparr>Headers := Some [''User-Agent'', ''Accept'', ''Accept-Encoding'',
                                ''Accept-Language'', ''Cookie'', ''User-Agent'']\<rparr>
      else o')"

record 's Cache =
  Cache_Store :: "'s Store"
  options :: "'s Options"
  expires :: "string \<rightharpoonup> Time"

text \<open>
  The library functions that cache.go calls and that are no part of it are parameters of
  the model: the gob codec, the MD5 digest in hexadecimal, and the canonical form of a
  header name. \<open>gob_Decode\<close> gives what \<open>dec.Decode(&cch)\<close> leaves in \<open>cch\<close>: \<open>None\<close> is
  the nil pointer of a decoding that failed before it allocated a value; the error that
  \<open>Decode\<close> returns is dropped by its only caller and is not modelled.
\<close>

record Lib =
  gob_Encode :: "Cached \<Rightarrow> error + bytes"
  gob_Decode :: "bytes \<Rightarrow> Cached option"
  md5_hex :: "string \<Rightarrow> string"
  CanonicalMIMEHeaderKey :: "string \<Rightarrow> string"

text \<open>
  A call either returns, or panics; both carry the state reached.
\<close>

datatype ('r, 's) outcome = Panicked 's | Returned 'r 's

definition KEY_PREFIX :: string where
  "KEY_PREFIX = ''gin:cache:''"

section \<open>Cache.Get, Cache.Set, Cache.Update\<close>

text \<open>
  \<open>now\<close> is the value of \<open>time.Now()\<close>, the system clock at the lookup.
\<close>

definition Cache_Get ::
  "'s Cache \<Rightarrow> Lib \<Rightarrow> Time \<Rightarrow> string \<Rightarrow> 's \<Rightarrow> (Cached option \<times> error option, 's) outcome" where
  "Cache_Get c lib now key s =
     (case Store_Get (Cache_Store c) key s of
        (Inr data, s1) \<Rightarrow>
          (case gob_Decode lib data of
             None \<Rightarrow> Panicked s1
           | Some cch \<Rightarrow>
               if Time_UnixNano (ExpireAt cch) \<noteq> 0 \<and> Time_Before (ExpireAt cch) now
               then (case Store_Remove (Cache_Store c) key s1 of
                       (_, s2) \<Rightarrow> Returned (None, None) s2)
               else Returned (Some cch, None) s1)
      | (Inl err, s1) \<Rightarrow> Returned (None, Some err) s1)"

definition Cache_Set ::
  "'s Cache \<Rightarrow> Lib \<Rightarrow> string \<Rightarrow> Cached \<Rightarrow> 's \<Rightarrow> (error option, 's) outcome" where
  "Cache_Set c lib key cch s =
     (case gob_Encode lib cch of
        Inl err \<Rightarrow> Panicked s
      | Inr b \<Rightarrow> (case Store_Set (Cache_Store c) key b s of (r, s1) \<Rightarrow> Returned r s1))"

definition Cache_Update ::
  "'s Cache \<Rightarrow> Lib \<Rightarrow> string \<Rightarrow> Cached \<Rightarrow> 's \<Rightarrow> (error option, 's) outcome" where
  "Cache_Update c lib key cch s =
     (case gob_Encode lib cch of
        Inl err \<Rightarrow> Panicked s
      | Inr b \<Rightarrow> (case Store_Update (Cache_Store c) key b s of (r, s1) \<Rightarrow> Returned r s1))"

section \<open>The response writer and the context\<close>

text \<open>
  The writer of gin: the status, the header map, the body sent so far, and whether the
  connection has failed (a write then returns an error and sends nothing).
\<close>

record ResponseWriter =
  rw_status :: int
  rw_header :: http_Header
  rw_body :: bytes
  rw_broken :: bool

text \<open>
  \<open>c.Writer\<close> is an interface value: gin's writer, or a \<open>wrappedWriter\<close> around another
  writer with its own \<open>body\<close> buffer.
\<close>

datatype Writer = Gin ResponseWriter | Wrapped Writer bytes

fun Writer_Status :: "Writer \<Rightarrow> int" where
  "Writer_Status (Gin w) = rw_status w"
| "Writer_Status (Wrapped w b) = Writer_Status w"

fun Writer_Header :: "Writer \<Rightarrow> http_Header" where
  "Writer_Header (Gin w) = rw_header w"
| "Writer_Header (Wrapped w b) = Writer_Header w"

fun Writer_Header_upd :: "(http_Header \<Rightarrow> http_Header) \<Rightarrow> Writer \<Rightarrow> Writer" where
  "Writer_Header_upd f (Gin w) = Gin (w\<lparr>rw_header := f (rw_header w)\<rparr>)"
| "Writer_Header_upd f (Wrapped w b) = Wrapped (Writer_Header_upd f w) b"

fun Writer_WriteHeader :: "int \<Rightarrow> Writer \<Rightarrow> Writer" where
  "Writer_WriteHeader code (Gin w) = Gin (if 0 < code then w\<lparr>rw_status := code\<rparr> else w)"
| "Writer_WriteHeader code (Wrapped w b) = Wrapped (Writer_WriteHeader code w) b"

text \<open>
  \<open>Write\<close>: on gin's writer the bytes are sent unless the connection has failed; the
  second equation is \<open>wrappedWriter.Write\<close> (lines 107 to 113), which forwards the write
  and, if it succeeded, appends the bytes to its own buffer.
\<close>

fun Writer_Write :: "bytes \<Rightarrow> Writer \<Rightarrow> error option \<times> Writer" where
  "Writer_Write body (Gin w) =
     (if rw_broken w then (Some (ErrOther ''write''), Gin w)
      else (None, Gin (w\<lparr>rw_body := rw_body w @ body\<rparr>)))"
| "Writer_Write body (Wrapped w b) =
     (case Writer_Write body w of
        (err, w') \<Rightarrow> if err = None then (err, Wrapped w' (b @ body)) else (err, Wrapped w' b))"

fun wrapped_inner :: "Writer \<Rightarrow> Writer" where
  "wrapped_inner (Wrapped w b) = w"
| "wrapped_inner (Gin w) = Gin w"

fun wrapped_body :: "Writer \<Rightarrow> bytes" where
  "wrapped_body (Wrapped w b) = b"
| "wrapped_body (Gin w) = []"

definition Header_Add :: "Lib \<Rightarrow> string \<Rightarrow> string \<Rightarrow> http_Header \<Rightarrow> http_Header" where
  "Header_Add lib key v h =
     (let k = CanonicalMIMEHeaderKey lib key
      in AList.update k ((case map_of h k of None \<Rightarrow> [] | Some vs \<Rightarrow> vs) @ [v]) h)"

definition Header_Set :: "Lib \<Rightarrow> string \<Rightarrow> string \<Rightarrow> http_Header \<Rightarrow> http_Header" where
  "Header_Set lib key v h = AList.update (CanonicalMIMEHeaderKey lib key) [v] h"

datatype any = AnyNil | AnyTime Time | AnyOther string

record Context =
  Method :: string
  RequestURI :: string
  Request_Header :: "string \<rightharpoonup> string list"
  Keys :: "string \<rightharpoonup> any"
  Writer :: Writer
  Aborted :: bool
  Errors :: "error list"

text \<open>
  The handlers after this one are given by what they do to the context they receive: a
  list of the calls below, which \<open>Next\<close> runs in order.
\<close>

datatype action =
    DoWriteHeader int
  | DoHeaderAdd string string
  | DoHeaderSet string string
  | DoWrite bytes
  | DoSet string any
  | DoError error
  | DoAbort

fun run_action :: "Lib \<Rightarrow> Context \<Rightarrow> action \<Rightarrow> Context" where
  "run_action lib c (DoWriteHeader code) = c\<lparr>Writer := Writer_WriteHeader code (Writer c)\<rparr>"
| "run_action lib c (DoHeaderAdd k v) = c\<lparr>Writer := Writer_Header_upd (Header_Add lib k v) (Writer c)\<rparr>"
| "run_action lib c (DoHeaderSet k v) = c\<lparr>Writer := Writer_Header_upd (Header_Set lib k v) (Writer c)\<rparr>"
| "run_action lib c (DoWrite b) = c\<lparr>Writer := snd (Writer_Write b (Writer c))\<rparr>"
| "run_action lib c (DoSet k v) = c\<lparr>Keys := (Keys c)(k \<mapsto> v)\<rparr>"
| "run_action lib c (DoError e) = c\<lparr>Errors := Errors c @ [e]\<rparr>"
| "run_action lib c DoAbort = c\<lparr>Aborted := True\<rparr>"

definition Next :: "Lib \<Rightarrow> (Context \<Rightarrow> action list) \<Rightarrow> Context \<Rightarrow> Context" where
  "Next lib downstream c = foldl (run_action lib) c (downstream c)"

section \<open>New and the handler it returns\<close>

definition New :: "'s Store \<Rightarrow> 's Options list \<Rightarrow> 's Cache" where
  \<comment> \<open>\<open>NewInMemory\<close>: the store of \<open>NewInMemory()\<close>, which is not in cache.go\<close>
  "New NewInMemory o' =
     (let opts = \<lparr>Store = NewInMemory, Expire = 0, Headers = None, DoNotUseAbort = False\<rparr>;
          opts = (case o' of [] \<Rightarrow> opts | i # _ \<Rightarrow> i);
          opts = Options_init opts
      in \<lparr>Cache_Store = Store opts, options = opts, expires = Map.empty\<rparr>)"

definition request_key :: "'s Cache \<Rightarrow> Lib \<Rightarrow> Context \<Rightarrow> string" where
  \<comment> \<open>lines 141 to 149\<close>
  "request_key cache lib c =
     (let tohash = foldl (\<lambda>tohash k. case Request_Header c k of
                                         Some v \<Rightarrow> tohash @ k @ concat v
                                       | None \<Rightarrow> tohash)
                     (RequestURI c)
                     (case Headers (options cache) of None \<Rightarrow> [] | Some hs \<Rightarrow> hs)
      in KEY_PREFIX @ md5_hex lib tohash)"

definition cache_control :: "Time \<Rightarrow> Duration \<Rightarrow> string" where
  \<comment> \<open>the header value of lines 162 and 189\<close>
  "cache_control timeNow expire =
     getCacheControl (Nanoseconds (getTimeDiff timeNow expire) sdiv 1000000000)"

definition miss_before_Next :: "'s Cache \<Rightarrow> Lib \<Rightarrow> string \<Rightarrow> Time \<Rightarrow> Context \<Rightarrow> Context" where
  \<comment> \<open>lines 157 to 162: the writer is wrapped and the three headers are added\<close>
  "miss_before_Next cache lib key timeNow c =
     (let rw = Wrapped (Writer c) [];
          rw = Writer_Header_upd (Header_Add lib ''Etag'' key) rw;
          rw = Writer_Header_upd (Header_Add lib ''X-Gin-Cache-Hit'' ''MISS'') rw;
          rw = Writer_Header_upd
                 (Header_Add lib ''Cache-Control'' (cache_control timeNow (Expire (options cache)))) rw
      in c\<lparr>Writer := rw\<rparr>)"

definition captured :: "'s Cache \<Rightarrow> Time \<Rightarrow> Writer \<Rightarrow> Cached" where
  \<comment> \<open>lines 166 to 177: the entry built from the wrapped writer \<open>rw\<close>\<close>
  "captured cache timeNow rw =
     \<lparr>Status = Writer_Status rw,
      Body = wrapped_body rw,
      Header = Writer_Header rw,
      ExpireAt = (if Expire (options cache) = 0 then Time_zero
                  else getExpiresAtTime timeNow (Expire (options cache)))\<rparr>"

definition serve_hit :: "'s Cache \<Rightarrow> Lib \<Rightarrow> Time \<Rightarrow> Cached \<Rightarrow> Context \<Rightarrow> Context" where
  \<comment> \<open>lines 182 to 198\<close>
  "serve_hit cache lib timeNow cch c =
     (let w = Writer_WriteHeader (Status cch) (Writer c);
          w = foldl (\<lambda>w (k, val). foldl (\<lambda>w v. Writer_Header_upd (Header_Add lib k v) w) w val)
                w (Header cch);
          w = Writer_Header_upd (Header_Set lib ''X-Gin-Cache-Hit'' ''HIT'') w;
          w = Writer_Header_upd
                (Header_Set lib ''Cache-Control'' (cache_control timeNow (Expire (options cache)))) w;
          w = snd (Writer_Write (Body cch) w);
          c = c\<lparr>Writer := w\<rparr>
      in if \<not> DoNotUseAbort (options cache) then c\<lparr>Aborted := True\<rparr> else c)"

text \<open>
  The handler that \<open>New\<close> returns, on the cache it has built. \<open>sysnow\<close> is the system
  clock that \<open>Cache.Get\<close> reads; the context and the state of the store are passed
  through. The type assertion \<open>tn.(time.Time)\<close> panics unless the value under
  \<open>"TimeNow"\<close> is a \<open>time.Time\<close>.
\<close>

definition handler ::
  "'s Cache \<Rightarrow> Lib \<Rightarrow> (Context \<Rightarrow> action list) \<Rightarrow> Time \<Rightarrow> Context \<times> 's
     \<Rightarrow> (unit, Context \<times> 's) outcome" where
  "handler cache lib downstream sysnow cs =
     (case cs of (c, s) \<Rightarrow>
        if Method c \<noteq> ''GET'' then Returned () (Next lib downstream c, s)
        else
          let key = request_key cache lib c
          in case Keys c ''TimeNow'' of
               Some (AnyTime timeNow) \<Rightarrow>
                 (case Cache_Get cache lib sysnow key s of
                    Panicked s1 \<Rightarrow> Panicked (c, s1)
                  | Returned (None, _) s1 \<Rightarrow>
                      (let c1 = miss_before_Next cache lib key timeNow c;
                           c2 = Next lib downstream c1;
                           rw = Writer c2;
                           c3 = c2\<lparr>Writer := wrapped_inner rw\<rparr>
                       in case Cache_Set cache lib key (captured cache timeNow rw) s1 of
                            Panicked s2 \<Rightarrow> Panicked (c3, s2)
                          | Returned _ s2 \<Rightarrow> Returned () (c3, s2))
                  | Returned (Some cch, _) s1 \<Rightarrow>
                      Returned () (serve_hit cache lib timeNow cch c, s1))
             | _ \<Rightarrow> Panicked (c, s))"

text \<open>
  The context after a miss has been prepared and the handlers downstream have run, while
  \<open>c.Writer\<close> is still the wrapped writer.
\<close>

abbreviation after_downstream ::
  "'s Cache \<Rightarrow> Lib \<Rightarrow> (Context \<Rightarrow> action list) \<Rightarrow> Time \<Rightarrow> Context \<Rightarrow> Context" where
  "after_downstream cache lib downstream timeNow c \<equiv>
     Next lib downstream (miss_before_Next cache lib (request_key cache lib c) timeNow c)"

section \<open>Example inputs\<close>

text \<open>
  Concrete stores, library functions and requests, on which the model is run below.
\<close>

definition map_store :: "(string \<times> bytes) list Store" where
  \<comment> \<open>a store in memory: \<open>Set\<close> refuses a key that exists, \<open>Update\<close> and \<open>Remove\<close> one
      that does not\<close>
  "map_store =
     \<lparr>Store_Get = (\<lambda>key s. (case map_of s key of None \<Rightarrow> Inl ErrNotFound | Some b \<Rightarrow> Inr b, s)),
      Store_Set = (\<lambda>key b s. case map_of s key of
                                 None \<Rightarrow> (None, s @ [(key, b)])
                               | Some _ \<Rightarrow> (Some ErrAlreadyExists, s)),
      Store_Remove = (\<lambda>key s. case map_of s key of
                                 None \<Rightarrow> (Some ErrNotFound, s)
                               | Some _ \<Rightarrow> (None, AList.delete key s)),
      Store_Update = (\<lambda>key b s. case map_of s key of
                                    None \<Rightarrow> (Some ErrNotFound, s)
                                  | Some _ \<Rightarrow> (None, AList.update key b s)),
      Store_Keys = map fst\<rparr>"

definition failing_store :: "(string \<times> bytes) list Store" where
  \<comment> \<open>the same store behind a connection on which every \<open>Set\<close> and \<open>Remove\<close> fails\<close>
  "failing_store =
     map_store\<lparr>Store_Set := (\<lambda>key b s. (Some (ErrOther ''set failed''), s)),
                Store_Remove := (\<lambda>key s. (Some (ErrOther ''remove failed''), s))\<rparr>"

definition example_lib :: "Cached \<Rightarrow> Lib" where
  \<comment> \<open>a codec that knows one encoded value, the bytes \<open>gob\<close> for the entry \<open>e\<close>, and
      fails on all other bytes; a fixed digest; header names taken as they are\<close>
  "example_lib e =
     \<lparr>gob_Encode = (\<lambda>cch. Inr ''gob''),
      gob_Decode = (\<lambda>data. if data = ''gob'' then Some e else None),
      md5_hex = (\<lambda>s. ''5d41402abc4b2a76b9719d911017c592''),
      CanonicalMIMEHeaderKey = (\<lambda>k. k)\<rparr>"

definition example_time :: Time where
  \<comment> \<open>2024-01-01 00:00:00 UTC\<close>
  "example_time = 63839664000000000000"

definition example_entry :: "Time \<Rightarrow> Cached" where
  "example_entry t =
     \<lparr>Status = 200, Body = ''hello'', Header = [(''Content-Type'', [''text/plain''])],
      ExpireAt = t\<rparr>"

definition example_cache :: "'s Store \<Rightarrow> Duration \<Rightarrow> 's Cache" where
  "example_cache st d = New st [\<lparr>Store = st, Expire = d, Headers = None, DoNotUseAbort = False\<rparr>]"

definition example_request :: "string \<Rightarrow> (string \<rightharpoonup> any) \<Rightarrow> Context" where
  "example_request m ks =
     \<lparr>Method = m, RequestURI = ''/a?x=1'',
      Request_Header = [''Accept'' \<mapsto> [''text/html'']],
      Keys = ks,
      Writer = Gin \<lparr>rw_status = 200, rw_header = [], rw_body = [], rw_broken = False\<rparr>,
      Aborted = False, Errors = []\<rparr>"

definition example_downstream :: "Context \<Rightarrow> action list" where
  "example_downstream c =
     [DoHeaderSet ''Content-Type'' ''text/plain'', DoWriteHeader 200, DoWrite ''hello'']"

section \<open>Properties of the expiry functions\<close>


lemma roundTimeUp_diff: "0 < d \<Longrightarrow> roundTimeUp t d - t = d - t mod d"
  by (simp add: roundTimeUp_def Time_Truncate_def Time_Add_def)

lemma getTimeDiff_pos:
  assumes "0 < d" and "d \<le> maxDuration"
  shows "getTimeDiff t d = d - t mod d"
proof -
  have r: "0 \<le> t mod d" "t mod d < d"
    using assms(1) by simp_all
  have "minDuration \<le> d - t mod d"
    using r by (simp add: minDuration_def)
  moreover have "d - t mod d \<le> maxDuration"
    using r assms(2) by simp
  ultimately show ?thesis
    using assms(1) by (simp add: getTimeDiff_def Time_Sub_def Let_def roundTimeUp_diff)
qed

lemma getTimeDiff_zero: "getTimeDiff now 0 = 0"
  by (simp add: getTimeDiff_def roundTimeUp_def Time_Truncate_def Time_Add_def Time_Sub_def
      minDuration_def maxDuration_def)

lemma getTimeDiff_nonneg:
  assumes "0 \<le> D" and "D \<le> maxDuration"
  shows "0 \<le> getTimeDiff now D"
proof (cases "D = 0")
  case True
  then show ?thesis by (simp add: getTimeDiff_zero)
next
  case False
  then have "0 < D" using assms(1) by simp
  then have "getTimeDiff now D = D - now mod D" "now mod D < D"
    using assms(2) by (simp_all add: getTimeDiff_pos)
  then show ?thesis by simp
qed

lemmas expiry_defs =
  getTimeDiff_def getExpiresAtTime_def roundTimeUp_def Time_Truncate_def Time_Add_def
  Time_Sub_def minDuration_def maxDuration_def

text \<open>
  C4, amended. For every instant \<open>now\<close> and every duration \<open>D > 0\<close> (an \<open>int64\<close>), the
  remaining window \<open>getTimeDiff now D\<close> is the bucket boundary minus \<open>now\<close>, where the
  boundary is \<open>now\<close> truncated down to a multiple of \<open>D\<close> since the zero time plus \<open>D\<close>
  once. It lies in the half-open interval \<open>(0, D]\<close>: it is never 0, and it is the whole
  of \<open>D\<close> exactly when \<open>now\<close> falls on a bucket boundary.
\<close>

theorem remaining_window:
  assumes "0 < D" and "D \<le> maxDuration"
  shows "getTimeDiff now D = getExpiresAtTime now D - now
       \<and> getExpiresAtTime now D = now - now mod D + D
       \<and> 0 < getTimeDiff now D \<and> getTimeDiff now D \<le> D
       \<and> (getTimeDiff now D = D \<longleftrightarrow> now mod D = 0)"
proof -
  have r: "0 \<le> now mod D" "now mod D < D"
    using assms(1) by simp_all
  have d: "getTimeDiff now D = D - now mod D"
    using assms by (rule getTimeDiff_pos)
  have b: "getExpiresAtTime now D = now - now mod D + D"
    using assms(1) by (simp add: getExpiresAtTime_def roundTimeUp_def Time_Truncate_def Time_Add_def)
  show ?thesis
    using r d b by auto
qed

text \<open>
  With a window of 60 seconds, 7 seconds after a boundary 53 seconds remain.
\<close>

theorem remaining_window_witness:
  "(0::int) < 60000000000 \<and> 60000000000 \<le> maxDuration
   \<and> getTimeDiff (example_time + 7000000000) 60000000000 = 53000000000
   \<and> getExpiresAtTime (example_time + 7000000000) 60000000000 = example_time + 60000000000"
  using remaining_window [of 60000000000 "example_time + 7000000000"]
  by (simp add: maxDuration_def example_time_def)

text \<open>
  On a bucket boundary the remaining window is the whole duration, which is not strictly
  less than the duration.
\<close>

theorem remaining_window_counterexample:
  "example_time mod 60000000000 = 0
   \<and> getTimeDiff example_time 60000000000 = 60000000000
   \<and> \<not> getTimeDiff example_time 60000000000 < 60000000000"
  by (simp add: expiry_defs example_time_def)



section \<open>The Cache-Control header\<close>

lemma digits10_53: "FormatInt10 53 = ''53''"
  by code_simp

lemma public_not_no_cache:
  "''max-age='' @ s @ '', public'' \<noteq> ''max-age=0, no-cache, no-store, must-revalidate''"
proof
  assume "''max-age='' @ s @ '', public'' = ''max-age=0, no-cache, no-store, must-revalidate''"
  then have "last (''max-age='' @ s @ '', public'')
               = last ''max-age=0, no-cache, no-store, must-revalidate''"
    by (rule arg_cong)
  then show False by simp
qed

lemma getCacheControl_no_cache_iff:
  "getCacheControl m = ''max-age=0, no-cache, no-store, must-revalidate'' \<longleftrightarrow> m = 0"
  using public_not_no_cache [of "FormatInt10 m"] by (simp add: getCacheControl_def)

lemma sdiv_nonneg: "0 \<le> a \<Longrightarrow> 0 < b \<Longrightarrow> a sdiv b = a div (b::int)"
  by (simp add: signed_divide_int_def sgn_if)

lemma Writer_Header_upd_Header [simp]:
  "Writer_Header (Writer_Header_upd f w) = f (Writer_Header w)"
  by (induction w) simp_all

lemma Writer_Write_Header [simp]: "Writer_Header (snd (Writer_Write b w)) = Writer_Header w"
  by (induction w) (auto split: prod.splits)

text \<open>
  Both branches of the handler put the value \<open>cache_control\<close> under the header name: a hit
  sets it, a miss adds it to the values already there before the request goes on.
\<close>

lemma hit_sets_cache_control:
  "map_of (Writer_Header (Writer (serve_hit cache lib timeNow cch c)))
      (CanonicalMIMEHeaderKey lib ''Cache-Control'')
     = Some [cache_control timeNow (Expire (options cache))]"
  by (simp add: serve_hit_def Let_def Header_Set_def update_Some_unfold)

lemma miss_adds_cache_control:
  assumes "CanonicalMIMEHeaderKey lib ''Cache-Control'' \<noteq> CanonicalMIMEHeaderKey lib ''Etag''"
    and "CanonicalMIMEHeaderKey lib ''Cache-Control'' \<noteq> CanonicalMIMEHeaderKey lib ''X-Gin-Cache-Hit''"
  shows "map_of (Writer_Header (Writer (miss_before_Next cache lib key timeNow c)))
      (CanonicalMIMEHeaderKey lib ''Cache-Control'')
     = Some ((case map_of (Writer_Header (Writer c)) (CanonicalMIMEHeaderKey lib ''Cache-Control'') of
                None \<Rightarrow> [] | Some vs \<Rightarrow> vs)
             @ [cache_control timeNow (Expire (options cache))])"
  using assms by (simp add: miss_before_Next_def Let_def Header_Add_def update_conv')

text \<open>
  C5, amended. For a duration \<open>0 \<le> D\<close> (an \<open>int64\<close>), the Cache-Control value is
  \<open>max-age=0, no-cache, no-store, must-revalidate\<close> exactly when less than one whole
  second of the freshness window remains at the reference time; that is so when the
  duration is 0, and also for a positive duration in the last second before a bucket
  boundary. Otherwise the value is \<open>max-age=<seconds>, public\<close>, with \<open><seconds>\<close> the
  integer floor in seconds of the remaining window.
\<close>

theorem cache_control_value:
  assumes "0 \<le> D" and "D \<le> maxDuration"
  shows "(cache_control now D = ''max-age=0, no-cache, no-store, must-revalidate''
            \<longleftrightarrow> getTimeDiff now D < 1000000000)
       \<and> (D = 0 \<longrightarrow> cache_control now D = ''max-age=0, no-cache, no-store, must-revalidate'')
       \<and> (1000000000 \<le> getTimeDiff now D \<longrightarrow>
            cache_control now D
              = ''max-age='' @ FormatInt10 (getTimeDiff now D div 1000000000) @ '', public'')"
proof -
  have n: "0 \<le> getTimeDiff now D"
    using assms by (rule getTimeDiff_nonneg)
  then have s: "Nanoseconds (getTimeDiff now D) sdiv 1000000000 = getTimeDiff now D div 1000000000"
    by (simp add: Nanoseconds_def sdiv_nonneg)
  have z: "getTimeDiff now D div 1000000000 = 0 \<longleftrightarrow> getTimeDiff now D < 1000000000"
    using n by (auto simp add: zdiv_eq_0_iff)
  have 1: "cache_control now D = ''max-age=0, no-cache, no-store, must-revalidate''
            \<longleftrightarrow> getTimeDiff now D < 1000000000"
    unfolding cache_control_def s getCacheControl_no_cache_iff by (rule z)
  have 2: "D = 0 \<longrightarrow> cache_control now D = ''max-age=0, no-cache, no-store, must-revalidate''"
    by (simp add: cache_control_def getTimeDiff_zero Nanoseconds_def getCacheControl_def)
  have 3: "1000000000 \<le> getTimeDiff now D \<longrightarrow>
            cache_control now D
              = ''max-age='' @ FormatInt10 (getTimeDiff now D div 1000000000) @ '', public''"
    unfolding cache_control_def s using z by (simp add: getCacheControl_def)
  show ?thesis
    using 1 2 3 by blast
qed

text \<open>
  With a window of 60 seconds, 7 seconds after a boundary the value is
  \<open>max-age=53, public\<close>.
\<close>

theorem cache_control_value_witness:
  "(0::int) \<le> 60000000000 \<and> 60000000000 \<le> maxDuration
   \<and> (1000000000::int) \<le> getTimeDiff (example_time + 7000000000) 60000000000
   \<and> cache_control (example_time + 7000000000) 60000000000 = ''max-age=53, public''"
proof -
  have td: "getTimeDiff (example_time + 7000000000) 60000000000 = 53000000000"
    by (simp add: expiry_defs example_time_def)
  show ?thesis
    using cache_control_value [of 60000000000 "example_time + 7000000000"]
    by (simp add: maxDuration_def td digits10_53)
qed

text \<open>
  With a window of 60 seconds, half a second before a boundary the value is the
  no-cache one although the duration is not 0.
\<close>

theorem cache_control_counterexample:
  "(60000000000::int) \<noteq> 0
   \<and> cache_control (example_time + 59500000000) 60000000000
       = ''max-age=0, no-cache, no-store, must-revalidate''"
  by (simp add: cache_control_def getCacheControl_def Nanoseconds_def expiry_defs
      example_time_def signed_divide_int_def)

section \<open>Lookups\<close>

lemmas example_defs =
  map_store_def failing_store_def example_lib_def example_time_def example_entry_def
  example_cache_def example_request_def example_downstream_def New_def Options_init_def

lemma UnixNano_zero: "Time_UnixNano Time_zero = - 6795364578871345152"
  by (simp add: Time_UnixNano_def Time_zero_def wrap64_def unixToInternal_def Second_def)


text \<open>
  C1. With a configured duration of 0 the entry that the handler captures has the zero
  time as its \<open>ExpireAt\<close>. The next lookup, however, does not serve it: \<open>Cache.Get\<close> tests
  \<open>UnixNano() != 0\<close> for an expiry that is set, the zero time has the \<open>UnixNano\<close> value
  \<open>-6795364578871345152\<close>, and the zero time is before every later system time. So
  when the store returns an encoding of that entry, the lookup takes it for expired:
  it calls \<open>Remove\<close> and returns no entry.
\<close>

theorem ttl_zero_entry_is_expired:
  assumes "Expire (options c) = 0"
    and "Store_Get (Cache_Store c) key s = (Inr data, s1)"
    and "gob_Decode lib data = Some (captured c timeNow rw)"
    and "Time_zero < now"
  shows "ExpireAt (captured c timeNow rw) = Time_zero
       \<and> Cache_Get c lib now key s
           = Returned (None, None) (snd (Store_Remove (Cache_Store c) key s1))"
proof -
  have z: "ExpireAt (captured c timeNow rw) = Time_zero"
    using assms(1) by (simp add: captured_def)
  have "Time_UnixNano (ExpireAt (captured c timeNow rw)) \<noteq> 0"
    by (simp add: z UnixNano_zero)
  moreover have "Time_Before (ExpireAt (captured c timeNow rw)) now"
    using assms(4) by (simp add: z Time_Before_def)
  ultimately have "Cache_Get c lib now key s
           = Returned (None, None) (snd (Store_Remove (Cache_Store c) key s1))"
    using assms(2,3) by (simp add: Cache_Get_def split: prod.splits)
  then show ?thesis
    using z by simp
qed

text \<open>
  The entry captured for a request under a duration of 0, found in the store at the
  beginning of 2024: the lookup removes it and reports a miss.
\<close>

theorem ttl_zero_entry_is_expired_witness:
  "Expire (options (example_cache map_store 0)) = 0
   \<and> Store_Get (Cache_Store (example_cache map_store 0)) ''k'' [(''k'', ''gob'')]
       = (Inr ''gob'', [(''k'', ''gob'')])
   \<and> gob_Decode (example_lib (captured (example_cache map_store 0) example_time
                                 (Writer (example_request ''GET'' Map.empty)))) ''gob''
       = Some (captured (example_cache map_store 0) example_time
                 (Writer (example_request ''GET'' Map.empty)))
   \<and> Time_zero < example_time
   \<and> Cache_Get (example_cache map_store 0)
        (example_lib (captured (example_cache map_store 0) example_time
                        (Writer (example_request ''GET'' Map.empty))))
        example_time ''k'' [(''k'', ''gob'')]
       = Returned (None, None) []"
proof -
  let ?c = "example_cache map_store 0"
  let ?e = "captured ?c example_time (Writer (example_request ''GET'' Map.empty))"
  have 1: "Expire (options ?c) = 0"
    by (simp add: example_defs)
  have 2: "Store_Get (Cache_Store ?c) ''k'' [(''k'', ''gob'')] = (Inr ''gob'', [(''k'', ''gob'')])"
    by (simp add: example_defs)
  have 3: "gob_Decode (example_lib ?e) ''gob'' = Some ?e"
    by (simp add: example_lib_def)
  have 4: "Time_zero < example_time"
    by (simp add: Time_zero_def example_time_def)
  have 5: "snd (Store_Remove (Cache_Store ?c) ''k'' [(''k'', ''gob'')]) = []"
    by (simp add: example_defs)
  show ?thesis
    using ttl_zero_entry_is_expired [OF 1 2 3 4] 1 2 3 4 5 by simp
qed

text \<open>
  C2. \<open>Cache.Get\<close> drops the error of \<open>Decode\<close> and reads \<open>cch.ExpireAt\<close> at once. When
  the store returns bytes from which the decoder allocates no entry, \<open>cch\<close> is still nil
  and the lookup panics, in the state that \<open>Store.Get\<close> left; it reports neither an error
  nor a miss.
\<close>

theorem undecodable_entry_panics:
  assumes "Store_Get (Cache_Store c) key s = (Inr data, s1)"
    and "gob_Decode lib data = None"
  shows "Cache_Get c lib now key s = Panicked s1"
  using assms by (simp add: Cache_Get_def)

text \<open>
  A key that holds the empty byte sequence.
\<close>

theorem undecodable_entry_panics_witness:
  "Store_Get (Cache_Store (example_cache map_store 0)) ''k'' [(''k'', '''')]
       = (Inr '''', [(''k'', '''')])
   \<and> gob_Decode (example_lib (example_entry example_time)) '''' = None
   \<and> Cache_Get (example_cache map_store 0) (example_lib (example_entry example_time))
        example_time ''k'' [(''k'', '''')]
       = Panicked [(''k'', '''')]"
proof -
  let ?c = "example_cache map_store 0"
  have 1: "Store_Get (Cache_Store ?c) ''k'' [(''k'', '''')] = (Inr '''', [(''k'', '''')])"
    by (simp add: example_defs)
  have 2: "gob_Decode (example_lib (example_entry example_time)) '''' = None"
    by (simp add: example_lib_def)
  show ?thesis
    using undecodable_entry_panics [OF 1 2] 1 2 by simp
qed

lemma wrap_zero: "(x + 2 ^ 63) mod 2 ^ 64 = (2 ^ 63 :: int) \<longleftrightarrow> x mod 2 ^ 64 = 0"
proof -
  define r where "r = x mod 2 ^ 64"
  have b: "0 \<le> r" "r < 2 ^ 64"
    by (simp_all add: r_def)
  have s: "(x + 2 ^ 63) mod 2 ^ 64 = (r + 2 ^ 63) mod 2 ^ 64"
    by (simp add: r_def mod_add_left_eq)
  have "(r + 2 ^ 63) mod 2 ^ 64 = (if r < 2 ^ 63 then r + 2 ^ 63 else r - 2 ^ 63)"
  proof (cases "r < 2 ^ 63")
    case True
    then show ?thesis
      using b by (simp add: mod_pos_pos_trivial)
  next
    case False
    have "(r + 2 ^ 63) mod 2 ^ 64 = (r + 2 ^ 63 - 2 ^ 64) mod 2 ^ 64"
      by (simp only: minus_mod_self2)
    also have "\<dots> = r - 2 ^ 63"
      using False b by (simp add: mod_pos_pos_trivial)
    finally show ?thesis
      using False by simp
  qed
  then show ?thesis
    unfolding s r_def [symmetric] using b by (auto split: if_splits)
qed

lemma UnixNano_eq_0_iff: "Time_UnixNano t = 0 \<longleftrightarrow> (t - Unix_epoch) mod 2 ^ 64 = 0"
proof -
  have e: "(t div Second - unixToInternal) * Second + t mod Second = t - Unix_epoch"
    using div_mult_mod_eq [of t Second] by (simp add: Unix_epoch_def algebra_simps)
  have "wrap64 x = 0 \<longleftrightarrow> x mod 2 ^ 64 = 0" for x :: int
    using wrap_zero [of x] by (simp add: wrap64_def)
  then show ?thesis
    by (simp add: Time_UnixNano_def e)
qed




text \<open>
  The instant left out above: an entry set to expire at 1970-01-01 00:00:00 UTC has the
  \<open>UnixNano\<close> value 0, which the test of \<open>Cache.Get\<close> takes for the zero time, and is
  served in 2024. This is the test that also misjudges the zero time itself.
\<close>

lemma epoch_entry_is_served:
  "ExpireAt (example_entry Unix_epoch) \<noteq> Time_zero
   \<and> ExpireAt (example_entry Unix_epoch) < example_time
   \<and> Cache_Get (example_cache map_store 60000000000) (example_lib (example_entry Unix_epoch))
        example_time ''k'' [(''k'', ''gob'')]
       = Returned (Some (example_entry Unix_epoch), None) [(''k'', ''gob'')]"
proof -
  have "Time_UnixNano Unix_epoch = 0"
    by (simp add: UnixNano_eq_0_iff)
  then show ?thesis
    by (simp add: Cache_Get_def example_cache_def New_def Options_init_def map_store_def
        example_lib_def example_entry_def)
      (simp add: Unix_epoch_def unixToInternal_def Second_def Time_zero_def example_time_def)
qed

section \<open>The handler\<close>

text \<open>
  C8. For every request whose method is not \<open>GET\<close>, the handler only runs the handlers
  downstream: the context is the one they leave, with no header added and no key looked
  up, and the state of the store is untouched, whatever the store is.
\<close>

theorem non_GET_bypasses_cache:
  assumes "Method c \<noteq> ''GET''"
  shows "handler cache lib downstream sysnow (c, s) = Returned () (Next lib downstream c, s)"
  using assms by (simp add: handler_def)

text \<open>
  A \<open>POST\<close> request: the response is what the downstream handler wrote.
\<close>

theorem non_GET_bypasses_cache_witness:
  "Method (example_request ''POST'' Map.empty) \<noteq> ''GET''
   \<and> handler (example_cache map_store 60000000000) (example_lib (example_entry 0))
        example_downstream example_time (example_request ''POST'' Map.empty, [])
      = Returned ()
          ((example_request ''POST'' Map.empty)
             \<lparr>Writer := Gin \<lparr>rw_status = 200, rw_header = [(''Content-Type'', [''text/plain''])],
                             rw_body = ''hello'', rw_broken = False\<rparr>\<rparr>, [])"
proof -
  have 1: "Method (example_request ''POST'' Map.empty) \<noteq> ''GET''"
    by (simp add: example_request_def)
  have 2: "Next (example_lib (example_entry 0)) example_downstream (example_request ''POST'' Map.empty)
           = (example_request ''POST'' Map.empty)
             \<lparr>Writer := Gin \<lparr>rw_status = 200, rw_header = [(''Content-Type'', [''text/plain''])],
                             rw_body = ''hello'', rw_broken = False\<rparr>\<rparr>"
    by (simp add: Next_def example_downstream_def example_request_def example_lib_def
        Header_Set_def)
  have 3: "handler (example_cache map_store 60000000000) (example_lib (example_entry 0))
             example_downstream example_time (example_request ''POST'' Map.empty, [])
           = Returned () (Next (example_lib (example_entry 0)) example_downstream
                            (example_request ''POST'' Map.empty), [])"
    using 1 by (rule non_GET_bypasses_cache)
  show ?thesis
    using 1 2 3 by simp
qed

text \<open>
  C10. For every \<open>GET\<close> request whose context holds no \<open>time.Time\<close> under the key
  \<open>"TimeNow"\<close> (the key is absent, or its value is nil or of another type), the handler
  panics; the context and the state of the store are then as they were on entry, so no
  lookup has been made.
\<close>

theorem missing_TimeNow_panics:
  assumes "Method c = ''GET''"
    and "\<forall>t. Keys c ''TimeNow'' \<noteq> Some (AnyTime t)"
  shows "handler cache lib downstream sysnow (c, s) = Panicked (c, s)"
  using assms by (simp add: handler_def Let_def split: option.splits any.splits)

text \<open>
  A request without the key, and one with a string under it.
\<close>

theorem missing_TimeNow_panics_witness:
  "Method (example_request ''GET'' Map.empty) = ''GET''
   \<and> (\<forall>t. Keys (example_request ''GET'' Map.empty) ''TimeNow'' \<noteq> Some (AnyTime t))
   \<and> handler (example_cache map_store 60000000000) (example_lib (example_entry 0))
        example_downstream example_time (example_request ''GET'' Map.empty, [])
      = Panicked (example_request ''GET'' Map.empty, [])
   \<and> Method (example_request ''GET'' [''TimeNow'' \<mapsto> AnyOther ''2024-01-01'']) = ''GET''
   \<and> (\<forall>t. Keys (example_request ''GET'' [''TimeNow'' \<mapsto> AnyOther ''2024-01-01'']) ''TimeNow''
            \<noteq> Some (AnyTime t))
   \<and> handler (example_cache map_store 60000000000) (example_lib (example_entry 0))
        example_downstream example_time
        (example_request ''GET'' [''TimeNow'' \<mapsto> AnyOther ''2024-01-01''], [])
      = Panicked (example_request ''GET'' [''TimeNow'' \<mapsto> AnyOther ''2024-01-01''], [])"
proof -
  let ?a = "example_request ''GET'' Map.empty"
  let ?b = "example_request ''GET'' [''TimeNow'' \<mapsto> AnyOther ''2024-01-01'']"
  have 1: "Method ?a = ''GET''" and 2: "\<forall>t. Keys ?a ''TimeNow'' \<noteq> Some (AnyTime t)"
    by (simp_all add: example_request_def)
  have 3: "Method ?b = ''GET''" and 4: "\<forall>t. Keys ?b ''TimeNow'' \<noteq> Some (AnyTime t)"
    by (simp_all add: example_request_def)
  have 5: "handler (example_cache map_store 60000000000) (example_lib (example_entry 0))
             example_downstream example_time (?a, []) = Panicked (?a, [])"
    using 1 2 by (rule missing_TimeNow_panics)
  have 6: "handler (example_cache map_store 60000000000) (example_lib (example_entry 0))
             example_downstream example_time (?b, []) = Panicked (?b, [])"
    using 3 4 by (rule missing_TimeNow_panics)
  show ?thesis
    using 1 2 3 4 5 6 by simp
qed

lemma example_key:
  "request_key (example_cache st d) (example_lib e) (example_request m ks)
     = ''gin:cache:5d41402abc4b2a76b9719d911017c592''"
  by (simp add: request_key_def example_lib_def KEY_PREFIX_def)

lemma example_after_downstream:
  "Next (example_lib e) example_downstream
       (miss_before_Next (example_cache st 60000000000) (example_lib e)
          ''gin:cache:5d41402abc4b2a76b9719d911017c592'' (example_time + 7000000000)
          (example_request m ks))
     = (example_request m ks)
         \<lparr>Writer := Wrapped (Gin \<lparr>rw_status = 200,
               rw_header = [(''Etag'', [''gin:cache:5d41402abc4b2a76b9719d911017c592'']),
                            (''X-Gin-Cache-Hit'', [''MISS'']),
                            (''Cache-Control'', [''max-age=53, public'']),
                            (''Content-Type'', [''text/plain''])],
               rw_body = ''hello'', rw_broken = False\<rparr>) ''hello''\<rparr>"
proof -
  have td: "getTimeDiff (example_time + 7000000000) 60000000000 = 53000000000"
    by (simp add: expiry_defs example_time_def)
  have cc: "cache_control (example_time + 7000000000) 60000000000 = ''max-age=53, public''"
    by (simp add: cache_control_def td Nanoseconds_def signed_divide_int_def
        getCacheControl_def digits10_53)
  have o: "Expire (options (example_cache st 60000000000)) = 60000000000"
    by (simp add: example_cache_def New_def Options_init_def)
  show ?thesis
    by (simp add: miss_before_Next_def o cc Next_def example_downstream_def
        Header_Add_def Header_Set_def example_lib_def example_request_def)
qed

text \<open>
  C9, amended. On a cache miss, once the captured entry is encoded, the error that
  \<open>Store.Set\<close> returns is discarded: the handler returns normally, with the context as
  the handlers downstream left it (only \<open>c.Writer\<close> is put back), and with the store in
  the state \<open>Set\<close> left. The response already sent is not altered.
\<close>

theorem persist_failure_discarded:
  assumes "Method c = ''GET''"
    and "Keys c ''TimeNow'' = Some (AnyTime timeNow)"
    and "Cache_Get cache lib sysnow (request_key cache lib c) s = Returned (None, err) s1"
    and "gob_Encode lib (captured cache timeNow (Writer (after_downstream cache lib downstream timeNow c)))
           = Inr b"
  shows "handler cache lib downstream sysnow (c, s)
           = Returned ()
               ((after_downstream cache lib downstream timeNow c)
                  \<lparr>Writer := wrapped_inner (Writer (after_downstream cache lib downstream timeNow c))\<rparr>,
                snd (Store_Set (Cache_Store cache) (request_key cache lib c) b s1))"
  using assms by (simp add: handler_def Let_def Cache_Set_def split: prod.splits)

text \<open>
  A first request, under a duration of 60 seconds, with a store that accepts the entry.
\<close>

theorem persist_failure_discarded_witness:
  "Method (example_request ''GET'' [''TimeNow'' \<mapsto> AnyTime (example_time + 7000000000)]) = ''GET''
   \<and> Keys (example_request ''GET'' [''TimeNow'' \<mapsto> AnyTime (example_time + 7000000000)]) ''TimeNow''
       = Some (AnyTime (example_time + 7000000000))
   \<and> Cache_Get (example_cache map_store 60000000000) (example_lib (example_entry 0)) example_time
        ''gin:cache:5d41402abc4b2a76b9719d911017c592'' []
       = Returned (None, Some ErrNotFound) []
   \<and> handler (example_cache map_store 60000000000) (example_lib (example_entry 0))
       example_downstream example_time
       (example_request ''GET'' [''TimeNow'' \<mapsto> AnyTime (example_time + 7000000000)], [])
     = Returned ()
         ((example_request ''GET'' [''TimeNow'' \<mapsto> AnyTime (example_time + 7000000000)])
            \<lparr>Writer := Gin \<lparr>rw_status = 200,
               rw_header = [(''Etag'', [''gin:cache:5d41402abc4b2a76b9719d911017c592'']),
                            (''X-Gin-Cache-Hit'', [''MISS'']),
                            (''Cache-Control'', [''max-age=53, public'']),
                            (''Content-Type'', [''text/plain''])],
               rw_body = ''hello'', rw_broken = False\<rparr>\<rparr>,
          [(''gin:cache:5d41402abc4b2a76b9719d911017c592'', ''gob'')])"
proof -
  let ?c = "example_cache map_store 60000000000"
  let ?l = "example_lib (example_entry 0)"
  let ?r = "example_request ''GET'' [''TimeNow'' \<mapsto> AnyTime (example_time + 7000000000)]"
  have 1: "Method ?r = ''GET''"
    and 2: "Keys ?r ''TimeNow'' = Some (AnyTime (example_time + 7000000000))"
    by (simp_all add: example_request_def)
  have 3: "Cache_Get ?c ?l example_time (request_key ?c ?l ?r) [] = Returned (None, Some ErrNotFound) []"
    unfolding example_key
    by (simp add: Cache_Get_def example_cache_def New_def Options_init_def map_store_def)
  have 4: "gob_Encode ?l (captured ?c (example_time + 7000000000)
             (Writer (after_downstream ?c ?l example_downstream (example_time + 7000000000) ?r)))
           = Inr ''gob''"
    by (simp add: example_lib_def)
  have 5: "snd (Store_Set (Cache_Store ?c) ''gin:cache:5d41402abc4b2a76b9719d911017c592'' ''gob'' [])
           = [(''gin:cache:5d41402abc4b2a76b9719d911017c592'', ''gob'')]"
    by (simp add: example_cache_def New_def Options_init_def map_store_def)
  have 6: "handler ?c ?l example_downstream example_time (?r, [])
           = Returned ()
               ((after_downstream ?c ?l example_downstream (example_time + 7000000000) ?r)
                  \<lparr>Writer := wrapped_inner (Writer
                      (after_downstream ?c ?l example_downstream (example_time + 7000000000) ?r))\<rparr>,
                snd (Store_Set (Cache_Store ?c) (request_key ?c ?l ?r) ''gob'' []))"
    using 1 2 3 4 by (rule persist_failure_discarded)
  show ?thesis
    using 1 2 3 6 unfolding example_key example_after_downstream by (simp add: 5)
qed

text \<open>
  The same request with a store whose \<open>Set\<close> fails: the handler returns normally, the
  context is the same as above, with no error recorded in it, and nothing tells the
  caller that the entry was not stored.
\<close>

theorem persist_failure_counterexample:
  "Store_Set (Cache_Store (example_cache failing_store 60000000000))
       ''gin:cache:5d41402abc4b2a76b9719d911017c592'' ''gob'' []
     = (Some (ErrOther ''set failed''), [])
   \<and> handler (example_cache failing_store 60000000000) (example_lib (example_entry 0))
       example_downstream example_time
       (example_request ''GET'' [''TimeNow'' \<mapsto> AnyTime (example_time + 7000000000)], [])
     = Returned ()
         ((example_request ''GET'' [''TimeNow'' \<mapsto> AnyTime (example_time + 7000000000)])
            \<lparr>Writer := Gin \<lparr>rw_status = 200,
               rw_header = [(''Etag'', [''gin:cache:5d41402abc4b2a76b9719d911017c592'']),
                            (''X-Gin-Cache-Hit'', [''MISS'']),
                            (''Cache-Control'', [''max-age=53, public'']),
                            (''Content-Type'', [''text/plain''])],
               rw_body = ''hello'', rw_broken = False\<rparr>\<rparr>,
          [])"
proof -
  let ?c = "example_cache failing_store 60000000000"
  let ?r = "example_request ''GET'' [''TimeNow'' \<mapsto> AnyTime (example_time + 7000000000)]"
  have 1: "Store_Set (Cache_Store ?c) ''gin:cache:5d41402abc4b2a76b9719d911017c592'' ''gob'' []
             = (Some (ErrOther ''set failed''), [])"
    by (simp add: example_defs)
  have 2: "Cache_Get ?c (example_lib (example_entry 0)) example_time
             ''gin:cache:5d41402abc4b2a76b9719d911017c592'' []
           = Returned (None, Some ErrNotFound) []"
    by (simp add: Cache_Get_def example_defs)
  have 3: "Method ?r = ''GET''" "Keys ?r ''TimeNow'' = Some (AnyTime (example_time + 7000000000))"
    by (simp_all add: example_request_def)
  have 4: "gob_Encode (example_lib (example_entry 0)) e = Inr ''gob''" for e
    by (simp add: example_lib_def)
  show ?thesis
    by (simp add: 1 handler_def 3 example_key 2 example_after_downstream Cache_Set_def 4 Let_def)
qed

text \<open>
  The handler under a duration of 0, on a request whose entry is already in the store
  with the zero time as its \<open>ExpireAt\<close>: the response is marked \<open>MISS\<close>, the handlers
  downstream run again, and the entry is removed and stored anew.
\<close>

lemma ttl_zero_second_request_is_a_miss:
  "handler (example_cache map_store 0) (example_lib (example_entry Time_zero))
       example_downstream (example_time + 8000000000)
       (example_request ''GET'' [''TimeNow'' \<mapsto> AnyTime (example_time + 8000000000)],
        [(''gin:cache:5d41402abc4b2a76b9719d911017c592'', ''gob'')])
     = Returned ()
         ((example_request ''GET'' [''TimeNow'' \<mapsto> AnyTime (example_time + 8000000000)])
            \<lparr>Writer := Gin \<lparr>rw_status = 200,
               rw_header = [(''Etag'', [''gin:cache:5d41402abc4b2a76b9719d911017c592'']),
                            (''X-Gin-Cache-Hit'', [''MISS'']),
                            (''Cache-Control'', [''max-age=0, no-cache, no-store, must-revalidate'']),
                            (''Content-Type'', [''text/plain''])],
               rw_body = ''hello'', rw_broken = False\<rparr>\<rparr>,
          [(''gin:cache:5d41402abc4b2a76b9719d911017c592'', ''gob'')])"
proof -
  let ?c = "example_cache map_store 0"
  let ?l = "example_lib (example_entry Time_zero)"
  let ?r = "example_request ''GET'' [''TimeNow'' \<mapsto> AnyTime (example_time + 8000000000)]"
  have 1: "Method ?r = ''GET''"
    and 2: "Keys ?r ''TimeNow'' = Some (AnyTime (example_time + 8000000000))"
    by (simp_all add: example_request_def)
  have 3: "Cache_Get ?c ?l (example_time + 8000000000)
             ''gin:cache:5d41402abc4b2a76b9719d911017c592''
             [(''gin:cache:5d41402abc4b2a76b9719d911017c592'', ''gob'')]
           = Returned (None, None) []"
    by (simp add: Cache_Get_def example_cache_def New_def Options_init_def map_store_def
        example_lib_def example_entry_def UnixNano_zero [unfolded Time_zero_def]
        Time_Before_def Time_zero_def example_time_def)
  have o: "Expire (options ?c) = 0"
    by (simp add: example_cache_def New_def Options_init_def)
  have 4: "Next ?l example_downstream
             (miss_before_Next ?c ?l ''gin:cache:5d41402abc4b2a76b9719d911017c592''
                (example_time + 8000000000) ?r)
           = ?r\<lparr>Writer := Wrapped (Gin \<lparr>rw_status = 200,
               rw_header = [(''Etag'', [''gin:cache:5d41402abc4b2a76b9719d911017c592'']),
                            (''X-Gin-Cache-Hit'', [''MISS'']),
                            (''Cache-Control'', [''max-age=0, no-cache, no-store, must-revalidate'']),
                            (''Content-Type'', [''text/plain''])],
               rw_body = ''hello'', rw_broken = False\<rparr>) ''hello''\<rparr>"
    by (simp add: miss_before_Next_def o cache_control_def getTimeDiff_zero Nanoseconds_def
        getCacheControl_def Next_def example_downstream_def Header_Add_def Header_Set_def
        example_lib_def example_request_def)
  have 5: "gob_Encode ?l e = Inr ''gob''" for e
    by (simp add: example_lib_def)
  have 6: "Store_Set (Cache_Store ?c) ''gin:cache:5d41402abc4b2a76b9719d911017c592'' ''gob'' []
           = (None, [(''gin:cache:5d41402abc4b2a76b9719d911017c592'', ''gob'')])"
    by (simp add: example_cache_def New_def Options_init_def map_store_def)
  show ?thesis
    by (simp add: handler_def 1 2 example_key 3 4 Cache_Set_def 5 6 Let_def)
qed

end
